theory Spec2Isabelle
  imports Complex_Main "HOL-Library.Sublist" "HOL-Library.Multiset"
begin

section \<open>Notifications and the diagnostic log\<close>

text \<open>
  The views report through three channels: \<^verbatim>\<open>toast.success\<close>, \<^verbatim>\<open>toast.error\<close> (sonner)
  and \<^verbatim>\<open>log.error\<close>; the prompt updater's error handler also calls
  \<^verbatim>\<open>console.log\<close>. Each call appends one signal to the state, in call order.
\<close>

datatype signal =
    ToastSuccess string
  | ToastError string
  | LogError string
  | ConsoleLog string

text \<open>The error object a failed call hands to \<^verbatim>\<open>onError\<close>; only \<^verbatim>\<open>error.message\<close> is read.\<close>

record command_error =
  message :: string

text \<open>
  The signals emitted so far. Every view's state extends this record, so the three
  reporting calls below are shared by all of them.
\<close>

record effects =
  signals :: "signal list"

definition toast_success :: "string \<Rightarrow> 'a effects_scheme \<Rightarrow> 'a effects_scheme" where
  "toast_success msg s = s\<lparr>signals := signals s @ [ToastSuccess msg]\<rparr>"

definition toast_error :: "string \<Rightarrow> 'a effects_scheme \<Rightarrow> 'a effects_scheme" where
  "toast_error msg s = s\<lparr>signals := signals s @ [ToastError msg]\<rparr>"

definition log_error :: "string \<Rightarrow> 'a effects_scheme \<Rightarrow> 'a effects_scheme" where
  "log_error msg s = s\<lparr>signals := signals s @ [LogError msg]\<rparr>"

definition console_log :: "string \<Rightarrow> 'a effects_scheme \<Rightarrow> 'a effects_scheme" where
  "console_log msg s = s\<lparr>signals := signals s @ [ConsoleLog msg]\<rparr>"

section \<open>The prompt grid (\<^verbatim>\<open>PromptGrid\<close>)\<close>

text \<open>
  A \<^verbatim>\<open>Prompt\<close> as the grid uses it: \<^verbatim>\<open>id\<close>, \<^verbatim>\<open>alias\<close>, \<^verbatim>\<open>content\<close>, \<^verbatim>\<open>createdAt\<close>
  (which the grid item treats as possibly missing).
\<close>

record prompt =
  prompt_id :: int
  prompt_alias :: string
  prompt_content :: string
  prompt_createdAt :: "string option"

text \<open>
  The state the grid's response handlers touch: the emitted signals, the query cache's
  entry under \<^verbatim>\<open>LIST_PROMPTS_KEY\<close> (\<open>None\<close> when nothing is cached), and the two
  dialog refs the handlers close. A ref's \<^verbatim>\<open>current\<close> is \<open>None\<close> when it is \<^verbatim>\<open>null\<close> (the dialog is
  not mounted) and \<open>Some b\<close> for a mounted dialog that is open iff \<open>b\<close>.
\<close>

record grid_state = effects +
  LIST_PROMPTS :: "prompt list option"
  newPromptDialogRef :: "bool option"
  editPromptDialogRef :: "bool option"

text \<open>
  \<^verbatim>\<open>queryClient.setQueryData(key, updater)\<close>: the updater gets the cached value; a result
  of \<^verbatim>\<open>undefined\<close> leaves the cache as it is, any other result is stored.
\<close>

definition setQueryData ::
  "('a option \<Rightarrow> 'a option) \<Rightarrow> 'a option \<Rightarrow> 'a option" where
  "setQueryData updater old = (case updater old of None \<Rightarrow> old | Some d \<Rightarrow> Some d)"

text \<open>\<^verbatim>\<open>ref.current?.close()\<close>: nothing when the ref is \<^verbatim>\<open>null\<close>, else the dialog closes.\<close>

definition close_dialog :: "bool option \<Rightarrow> bool option" where
  "close_dialog r = (case r of None \<Rightarrow> None | Some _ \<Rightarrow> Some False)"

text \<open>
  \<^verbatim>\<open>Array.prototype.findIndex\<close>: the index of the first element that satisfies the
  predicate, \<open>-1\<close> when there is none.
\<close>

fun findIndex :: "('a \<Rightarrow> bool) \<Rightarrow> 'a list \<Rightarrow> int" where
  "findIndex P [] = - 1"
| "findIndex P (x # xs) =
     (if P x then 0
      else (let i = findIndex P xs in if i = - 1 then - 1 else i + 1))"

subsection \<open>The three cache patches\<close>

text \<open>Create: \<^verbatim>\<open>(old) => old ? [...old, prompt] : [prompt]\<close>. An array is always truthy.\<close>

definition create_patch :: "prompt \<Rightarrow> prompt list option \<Rightarrow> prompt list option" where
  "create_patch prompt old =
     (case old of Some xs \<Rightarrow> Some (xs @ [prompt]) | None \<Rightarrow> Some [prompt])"

text \<open>
  Update: \<^verbatim>\<open>produce(old, draft => { index = draft?.findIndex(p => p.id === prompt.id) ?? -1;
  if (index !== -1 && draft) draft[index] = prompt })\<close>. With nothing cached the recipe
  changes nothing and \<^verbatim>\<open>produce\<close> returns \<^verbatim>\<open>undefined\<close>.
\<close>

definition update_patch :: "prompt \<Rightarrow> prompt list option \<Rightarrow> prompt list option" where
  "update_patch prompt old =
     (case old of
        None \<Rightarrow> None
      | Some draft \<Rightarrow>
          (let index = findIndex (\<lambda>p. prompt_id p = prompt_id prompt) draft
           in if index \<noteq> - 1 then Some (draft[nat index := prompt]) else Some draft))"

text \<open>
  Delete: \<^verbatim>\<open>produce(old, draft => draft?.filter(p => p.id !== prompt.id))\<close>. The deleter's
  success value is read through \<^verbatim>\<open>prompt.id\<close>.
\<close>

definition delete_patch :: "prompt \<Rightarrow> prompt list option \<Rightarrow> prompt list option" where
  "delete_patch prompt old =
     (case old of
        None \<Rightarrow> None
      | Some draft \<Rightarrow> Some (filter (\<lambda>p. prompt_id p \<noteq> prompt_id prompt) draft))"

subsection \<open>The response handlers\<close>

text \<open>
  Each handler is the \<^verbatim>\<open>onSuccess\<close> or \<^verbatim>\<open>onError\<close> callback given to the mutation hook.
  \<open>t\<close> is the translation function, \<open>stringify\<close> is \<^verbatim>\<open>JSON.stringify\<close> on the submitted
  variables.
\<close>

definition creator_onSuccess :: "(string \<Rightarrow> string) \<Rightarrow> prompt \<Rightarrow> grid_state \<Rightarrow> grid_state" where
  "creator_onSuccess t prompt s =
     (let s1 = s\<lparr>LIST_PROMPTS := setQueryData (create_patch prompt) (LIST_PROMPTS s)\<rparr>;
          s2 = toast_success (t ''page-prompts:message:create-prompt-success'') s1
      in s2\<lparr>newPromptDialogRef := close_dialog (newPromptDialogRef s2)\<rparr>)"

definition creator_onError ::
  "('v \<Rightarrow> string) \<Rightarrow> command_error \<Rightarrow> 'v \<Rightarrow> grid_state \<Rightarrow> grid_state" where
  "creator_onError stringify error variables s =
     (let s1 = log_error (''Failed to create prompt: data = '' @ stringify variables
                          @ '', error = '' @ message error) s
      in toast_error (''Failed to create prompt: '' @ message error) s1)"

definition updater_onSuccess :: "(string \<Rightarrow> string) \<Rightarrow> prompt \<Rightarrow> grid_state \<Rightarrow> grid_state" where
  "updater_onSuccess t prompt s =
     (let s1 = s\<lparr>LIST_PROMPTS := setQueryData (update_patch prompt) (LIST_PROMPTS s)\<rparr>;
          s2 = toast_success (t ''page-prompts:message:update-prompt-success'') s1
      in s2\<lparr>editPromptDialogRef := close_dialog (editPromptDialogRef s2)\<rparr>)"

definition updater_onError ::
  "('v \<Rightarrow> string) \<Rightarrow> command_error \<Rightarrow> 'v \<Rightarrow> grid_state \<Rightarrow> grid_state" where
  "updater_onError stringify error variables s =
     (let s0 = console_log (message error) s;
          s1 = log_error (''Failed to update prompt: data = '' @ stringify variables
                          @ '', error = '' @ message error) s0
      in toast_error (''Failed to update prompt: '' @ message error) s1)"

definition deleter_onSuccess :: "(string \<Rightarrow> string) \<Rightarrow> prompt \<Rightarrow> grid_state \<Rightarrow> grid_state" where
  "deleter_onSuccess t prompt s =
     (let s1 = s\<lparr>LIST_PROMPTS := setQueryData (delete_patch prompt) (LIST_PROMPTS s)\<rparr>;
          s2 = toast_success (t ''page-prompts:message:delete-prompt-success'') s1
      in s2\<lparr>editPromptDialogRef := close_dialog (editPromptDialogRef s2)\<rparr>)"

definition deleter_onError ::
  "('v \<Rightarrow> string) \<Rightarrow> command_error \<Rightarrow> 'v \<Rightarrow> grid_state \<Rightarrow> grid_state" where
  "deleter_onError stringify error variables s =
     (let s1 = log_error (''Failed to delete prompt: data = '' @ stringify variables
                          @ '', error = '' @ message error) s
      in toast_error (''Failed to delete prompt: '' @ message error) s1)"

section \<open>The settings page (\<^verbatim>\<open>Settings.tsx\<close>)\<close>

text \<open>
  The proxy setting as the form edits it: the fields \<^verbatim>\<open>on\<close>, \<^verbatim>\<open>server\<close>, \<^verbatim>\<open>http\<close>,
  \<^verbatim>\<open>https\<close>, \<^verbatim>\<open>username\<close>, \<^verbatim>\<open>password\<close>.
\<close>

record ProxySetting =
  proxy_on :: bool
  server :: string
  http :: bool
  https :: bool
  username :: string
  password :: string

text \<open>
  The state of the settings cards: the emitted signals; \<open>proxySetting\<close>, the saved proxy
  setting that \<^verbatim>\<open>useProxySetting\<close> returns; \<open>form\<close>, the proxy form's current values
  (\<^verbatim>\<open>form.getValues()\<close>); \<open>upserts\<close>, the calls of the upsert mutation in order, each one a
  request to the backend with its \<^verbatim>\<open>key\<close> and \<^verbatim>\<open>value\<close>; and the \<^verbatim>\<open>error\<close> state of the
  context-length and of the max-tokens card.
\<close>

record settings_state = effects +
  proxySetting :: ProxySetting
  form :: ProxySetting
  upserts :: "(string \<times> string) list"
  ctxLength_error :: string
  maxTokens_error :: string

subsection \<open>\<^verbatim>\<open>useUpsertSetting\<close>\<close>

text \<open>
  \<^verbatim>\<open>useUpsertSetting(successMsg, failureMsg, onSuccess)\<close> returns the mutation's
  \<^verbatim>\<open>mutate\<close>, called \<^verbatim>\<open>updater\<close> by every card: it issues the upsert request.
\<close>

definition updater :: "string \<times> string \<Rightarrow> settings_state \<Rightarrow> settings_state" where
  "updater variables s = s\<lparr>upserts := upserts s @ [variables]\<rparr>"

text \<open>The two response handlers of the hook; \<open>onSuccess\<close> is the card's own callback.\<close>

definition upsert_onSuccess ::
  "string \<Rightarrow> (settings_state \<Rightarrow> settings_state) \<Rightarrow> settings_state \<Rightarrow> settings_state" where
  "upsert_onSuccess successMsg onSuccess s = toast_success successMsg (onSuccess s)"

definition upsert_onError ::
  "string \<Rightarrow> command_error \<Rightarrow> string \<times> string \<Rightarrow> settings_state \<Rightarrow> settings_state" where
  "upsert_onError failureMsg error variables s =
     (let errMsg = ''Upserting settings failed: key = '' @ fst variables
                   @ '', value = '' @ snd variables @ '', '' @ message error;
          s1 = log_error errMsg s
      in toast_error failureMsg s1)"

subsection \<open>Numeric settings: context length and max tokens\<close>

text \<open>
  A JavaScript number: \<^verbatim>\<open>NaN\<close>, the two infinities, or a finite value (a double is a
  rational; \<^verbatim>\<open>-0\<close> and \<^verbatim>\<open>0\<close> are one value here, as the checks below and
  \<^verbatim>\<open>toString\<close> do not tell them apart).
\<close>

datatype jsnum = NaN | PosInfinity | NegInfinity | Finite rat

text \<open>\<^verbatim>\<open>Number.isInteger\<close> on a finite value.\<close>

definition isInteger :: "rat \<Rightarrow> bool" where
  "isInteger q = (of_int \<lfloor>q\<rfloor> = q)"

text \<open>
  \<^verbatim>\<open>z.coerce.number().int().min(lo).max(hi).safeParse(raw)\<close>. The coercion is
  \<^verbatim>\<open>Number(raw)\<close>, a parameter here; \<^verbatim>\<open>z.number()\<close> refuses \<^verbatim>\<open>NaN\<close>, \<^verbatim>\<open>int()\<close> refuses
  every value that is not an integer (the infinities too), \<^verbatim>\<open>min\<close> and \<^verbatim>\<open>max\<close> are
  inclusive. The result is \<open>Some data\<close> when \<^verbatim>\<open>validation.success\<close>, else \<open>None\<close> (the
  source never reads the issues).
\<close>

definition safeParse_int_min_max ::
  "('raw \<Rightarrow> jsnum) \<Rightarrow> int \<Rightarrow> int \<Rightarrow> 'raw \<Rightarrow> rat option" where
  "safeParse_int_min_max Number lo hi raw =
     (case Number raw of
        Finite q \<Rightarrow>
          (if isInteger q \<and> of_int lo \<le> q \<and> q \<le> of_int hi then Some q else None)
      | _ \<Rightarrow> None)"

text \<open>
  \<^verbatim>\<open>Number.prototype.toString()\<close> on an integer below \<open>10\<^sup>2\<^sup>1\<close> in size: its decimal
  digits, with a minus sign when negative. The cards call it on validated values only.
\<close>

definition digit_char :: "nat \<Rightarrow> char" where
  "digit_char d = ''0123456789'' ! (d mod 10)"

function digits :: "nat \<Rightarrow> string" where
  "digits n = (if n < 10 then [digit_char n] else digits (n div 10) @ [digit_char (n mod 10)])"
  by pat_completeness auto
termination
  by (relation "measure (\<lambda>n. n)") auto

declare digits.simps [simp del]

definition toString :: "rat \<Rightarrow> string" where
  "toString q =
     (let n = \<lfloor>q\<rfloor> in if n < 0 then ''-'' @ digits (nat (- n)) else digits (nat n))"

text \<open>
  The setting keys, from \<^verbatim>\<open>lib/constants\<close> (the constants file at hand spells the first
  name \<^verbatim>\<open>SETTING_MODELS_CONTENT_LENGTH\<close>).
\<close>

definition SETTING_MODELS_CONTEXT_LENGTH :: string where
  "SETTING_MODELS_CONTEXT_LENGTH = ''models:context_length''"

definition SETTING_MODELS_MAX_TOKENS :: string where
  "SETTING_MODELS_MAX_TOKENS = ''models:max_tokens''"

text \<open>
  \<^verbatim>\<open>SettingContextLength.onSaveClick\<close> and \<^verbatim>\<open>SettingMaxTokens.onSaveClick\<close>. \<open>raw\<close> is
  \<^verbatim>\<open>ref.current?.value\<close> (\<open>None\<close> when the ref is \<^verbatim>\<open>null\<close>); \<open>errMsg\<close> is the translated
  \<^verbatim>\<open>error:validation:invalid-int-minmax\<close> message.
\<close>

definition SettingContextLength_onSaveClick ::
  "(string option \<Rightarrow> jsnum) \<Rightarrow> string \<Rightarrow> string option \<Rightarrow> settings_state \<Rightarrow> settings_state" where
  "SettingContextLength_onSaveClick Number errMsg raw s =
     (case safeParse_int_min_max Number 0 65535 raw of
        None \<Rightarrow> s\<lparr>ctxLength_error := errMsg\<rparr>
      | Some data \<Rightarrow> updater (SETTING_MODELS_CONTEXT_LENGTH, toString data) s)"

definition SettingMaxTokens_onSaveClick ::
  "(string option \<Rightarrow> jsnum) \<Rightarrow> string \<Rightarrow> string option \<Rightarrow> settings_state \<Rightarrow> settings_state" where
  "SettingMaxTokens_onSaveClick Number errMsg raw s =
     (case safeParse_int_min_max Number 1 65535 raw of
        None \<Rightarrow> s\<lparr>maxTokens_error := errMsg\<rparr>
      | Some data \<Rightarrow> updater (SETTING_MODELS_MAX_TOKENS, toString data) s)"

text \<open>
  A coercion to evaluate the cards with: it is \<^verbatim>\<open>Number\<close> on \<^verbatim>\<open>undefined\<close> and on strings
  of decimal digits (the empty string coerces to \<open>0\<close>). On every other string it answers
  \<^verbatim>\<open>NaN\<close>, which \<^verbatim>\<open>Number\<close> does not always do, so the general statements below are about
  an arbitrary coercion and this one only instantiates them.
\<close>

definition digit_value :: "char \<Rightarrow> nat option" where
  "digit_value c =
     map_of [(CHR ''0'', 0), (CHR ''1'', 1), (CHR ''2'', 2), (CHR ''3'', 3), (CHR ''4'', 4),
             (CHR ''5'', 5), (CHR ''6'', 6), (CHR ''7'', 7), (CHR ''8'', 8), (CHR ''9'', 9)] c"

fun decimal_value :: "nat \<Rightarrow> string \<Rightarrow> nat option" where
  "decimal_value acc [] = Some acc"
| "decimal_value acc (c # cs) =
     (case digit_value c of None \<Rightarrow> None | Some d \<Rightarrow> decimal_value (10 * acc + d) cs)"

definition decimal_Number :: "string option \<Rightarrow> jsnum" where
  "decimal_Number raw =
     (case raw of
        None \<Rightarrow> NaN
      | Some cs \<Rightarrow> (case decimal_value 0 cs of None \<Rightarrow> NaN | Some n \<Rightarrow> Finite (of_nat n)))"

subsection \<open>The proxy card (\<^verbatim>\<open>SettingProxy\<close>)\<close>

text \<open>
  The auto-save effect. \<^verbatim>\<open>useProxy\<close> is the watched form field \<^verbatim>\<open>on\<close>. The key
  \<^verbatim>\<open>SETTING_NETWORK_PROXY\<close> is not in the constants file at hand and \<^verbatim>\<open>JSON.stringify\<close>
  is the platform's: both are parameters.
\<close>

definition SettingProxy_effect ::
  "string \<Rightarrow> (ProxySetting \<Rightarrow> string) \<Rightarrow> settings_state \<Rightarrow> settings_state" where
  "SettingProxy_effect SETTING_NETWORK_PROXY stringify s =
     (let useProxy = proxy_on (form s)
      in if proxy_on (proxySetting s) \<and> \<not> useProxy
         then updater (SETTING_NETWORK_PROXY, stringify (form s)) s
         else s)"

text \<open>
  The switch: \<^verbatim>\<open>onCheckedChange={field.onChange}\<close> stores the new flag in the form. The
  effect's dependencies are \<^verbatim>\<open>[form, proxySetting.on, updater, useProxy]\<close>. The form
  object and the mutation's \<^verbatim>\<open>mutate\<close> keep their identity between renders and the switch
  does not touch the saved setting, so of these only \<^verbatim>\<open>useProxy\<close> can change here: the
  effect runs after the change iff the flag's value is a new one.
\<close>

definition Switch_onCheckedChange ::
  "string \<Rightarrow> (ProxySetting \<Rightarrow> string) \<Rightarrow> bool \<Rightarrow> settings_state \<Rightarrow> settings_state" where
  "Switch_onCheckedChange SETTING_NETWORK_PROXY stringify checked s =
     (let s' = s\<lparr>form := (form s)\<lparr>proxy_on := checked\<rparr>\<rparr>
      in if proxy_on (form s) \<noteq> checked
         then SettingProxy_effect SETTING_NETWORK_PROXY stringify s'
         else s')"

section \<open>The remote model selector (\<^verbatim>\<open>RemoteModelsSelector\<close>)\<close>

record remote_model =
  model_id :: string
  created :: int

text \<open>
  The selector's state: \<open>enabled\<close> (\<^verbatim>\<open>useState(enabledByDefault)\<close>, the query's \<^verbatim>\<open>enabled\<close>
  option: the list is fetched only while it is true), the form's \<^verbatim>\<open>apiKey\<close> and \<^verbatim>\<open>model\<close>
  values (\<open>None\<close> for \<^verbatim>\<open>undefined\<close>) and the form's field errors by field name.
\<close>

record selector_state =
  enabled :: bool
  apiKey :: "string option"
  model :: "string option"
  errors :: "string \<rightharpoonup> string"

datatype js_error = TypeError

text \<open>
  \<^verbatim>\<open>onClick\<close> of the load-models button. \<^verbatim>\<open>form.getValues('apiKey').length\<close> throws a
  \<^verbatim>\<open>TypeError\<close> when the value is \<^verbatim>\<open>undefined\<close>.
\<close>

definition onClick :: "(string \<Rightarrow> string) \<Rightarrow> selector_state \<Rightarrow> js_error + selector_state" where
  "onClick t s =
     (case apiKey s of
        None \<Rightarrow> Inl TypeError
      | Some k \<Rightarrow>
          (if length k = 0
           then Inr (s\<lparr>errors := (errors s)(''apiKey'' \<mapsto> t ''error:validation:empty-api-key'')\<rparr>)
           else Inr (s\<lparr>enabled := True\<rparr>)))"

text \<open>
  \<^verbatim>\<open>Array.prototype.sort(compareFn)\<close>: a stable sort; \<open>x\<close> stays before \<open>y\<close> unless
  \<open>compareFn x y > 0\<close>. For a consistent comparator the result is unique, and insertion
  from the right computes it.
\<close>

fun insert_by :: "('a \<Rightarrow> 'a \<Rightarrow> int) \<Rightarrow> 'a \<Rightarrow> 'a list \<Rightarrow> 'a list" where
  "insert_by compareFn x [] = [x]"
| "insert_by compareFn x (y # ys) =
     (if compareFn x y \<le> 0 then x # y # ys else y # insert_by compareFn x ys)"

definition array_sort :: "('a \<Rightarrow> 'a \<Rightarrow> int) \<Rightarrow> 'a list \<Rightarrow> 'a list" where
  "array_sort compareFn xs = foldr (insert_by compareFn) xs []"

text \<open>The query's \<^verbatim>\<open>select: (raw) => raw.sort((a, b) => b.created - a.created)\<close>.\<close>

definition select :: "remote_model list \<Rightarrow> remote_model list" where
  "select raw = array_sort (\<lambda>a b. created b - created a) raw"

text \<open>The options rendered: one \<^verbatim>\<open>SelectItem\<close> per entry of \<^verbatim>\<open>data\<close>, showing its id.\<close>

definition displayed :: "remote_model list \<Rightarrow> string list" where
  "displayed data = map model_id data"

text \<open>
  The default-selection effect: \<^verbatim>\<open>if (data && data.length > 0) { fieldValue =
  form.getValues('model'); if (!fieldValue || fieldValue.length === 0)
  form.setValue('model', data[0].id) }\<close>.
\<close>

definition default_selection_effect ::
  "remote_model list option \<Rightarrow> selector_state \<Rightarrow> selector_state" where
  "default_selection_effect data s =
     (case data of
        None \<Rightarrow> s
      | Some [] \<Rightarrow> s
      | Some (m # ms) \<Rightarrow>
          (case model s of
             None \<Rightarrow> s\<lparr>model := Some (model_id m)\<rparr>
           | Some fieldValue \<Rightarrow>
               (if length fieldValue = 0 then s\<lparr>model := Some (model_id m)\<rparr> else s)))"

section \<open>The new-model dialog (\<^verbatim>\<open>NewModelFormDialog\<close>)\<close>

text \<open>The provider tags, from \<^verbatim>\<open>lib/constants\<close>.\<close>

definition PROVIDER_OPENAI :: string where
  "PROVIDER_OPENAI = ''OpenAI''"

definition PROVIDER_AZURE :: string where
  "PROVIDER_AZURE = ''Azure''"

text \<open>
  \<^verbatim>\<open>renderForm\<close> picks the form component by the dialog's \<^verbatim>\<open>provider\<close> state (\<open>None\<close> for
  \<^verbatim>\<open>undefined\<close>) and hands it the initial model, an object written here as its list of
  keys and values. The \<^verbatim>\<open>switch\<close> has one case, \<^verbatim>\<open>PROVIDER_OPENAI\<close>, and a default.
\<close>

datatype model_form = ModelForm_OpenAI_New | ModelForm_Azure_New

definition renderForm :: "string option \<Rightarrow> model_form \<times> (string \<times> string) list" where
  "renderForm provider =
     (if provider = Some PROVIDER_OPENAI
      then (ModelForm_OpenAI_New,
            [(''provider'', PROVIDER_OPENAI), (''apiKey'', []), (''model'', [])])
      else (ModelForm_Azure_New,
            [(''provider'', PROVIDER_AZURE), (''apiKey'', []), (''endpoint'', []),
             (''apiVersion'', []), (''deploymentId'', [])]))"

text \<open>The fields of a configuration other than its provider tag.\<close>

definition config_fields :: "(string \<times> string) list \<Rightarrow> string set" where
  "config_fields config = set (map fst config) - {''provider''}"

text \<open>
  Modelled from the spec: the provider schemas (\<^verbatim>\<open>lib/schemas\<close>) and the form component
  that applies them (\<^verbatim>\<open>forms/ModelForm\<close>) are not among the sources. The specification
  says that one provider requires the API key and the model name and the other the API
  key, endpoint, API version and deployment id, that the required-field set is determined
  solely by the provider tag, and that a schema requires exactly the field set matching
  the declared tag: extra or missing fields are a validation failure, not silently dropped
  or defaulted. A failure reports the offending fields.
\<close>

definition required_fields :: "string \<Rightarrow> string set option" where
  "required_fields tag =
     (if tag = PROVIDER_OPENAI then Some {''apiKey'', ''model''}
      else if tag = PROVIDER_AZURE
      then Some {''apiKey'', ''endpoint'', ''apiVersion'', ''deploymentId''}
      else None)"

definition validate_model :: "(string \<times> string) list \<Rightarrow> string set + (string \<times> string) list" where
  "validate_model config =
     (case map_of config ''provider'' of
        None \<Rightarrow> Inl {''provider''}
      | Some tag \<Rightarrow>
          (case required_fields tag of
             None \<Rightarrow> Inl {''provider''}
           | Some required \<Rightarrow>
               (if config_fields config = required then Inr config
                else Inl ((required - config_fields config) \<union> (config_fields config - required)))))"

section \<open>Observations and example values\<close>

text \<open>
  What the cache holds under \<^verbatim>\<open>LIST_PROMPTS_KEY\<close>, read as a collection: an absent entry
  has no prompts.
\<close>

definition cached_length :: "prompt list option \<Rightarrow> nat" where
  "cached_length c = (case c of None \<Rightarrow> 0 | Some xs \<Rightarrow> length xs)"

definition cached_ids :: "prompt list option \<Rightarrow> int list" where
  "cached_ids c = (case c of None \<Rightarrow> [] | Some xs \<Rightarrow> map prompt_id xs)"

text \<open>Three cached prompts with ids 1 and 2, an edit of the second, and a new one.\<close>

definition p1 :: prompt where
  "p1 = \<lparr>prompt_id = 1, prompt_alias = ''greeting'', prompt_content = ''Say hello'',
          prompt_createdAt = None\<rparr>"

definition p2 :: prompt where
  "p2 = \<lparr>prompt_id = 2, prompt_alias = ''summary'', prompt_content = ''Summarise this'',
          prompt_createdAt = None\<rparr>"

definition p2_edited :: prompt where
  "p2_edited = \<lparr>prompt_id = 2, prompt_alias = ''summary'', prompt_content = ''Summarise briefly'',
                 prompt_createdAt = None\<rparr>"

definition p3 :: prompt where
  "p3 = \<lparr>prompt_id = 3, prompt_alias = ''translate'', prompt_content = ''Translate this'',
          prompt_createdAt = None\<rparr>"

text \<open>A mounted grid with two cached prompts and both dialogs open.\<close>

definition grid_mounted :: grid_state where
  "grid_mounted = \<lparr>signals = [], LIST_PROMPTS = Some [p1, p2],
                    newPromptDialogRef = Some True, editPromptDialogRef = Some True\<rparr>"

text \<open>
  A failure signal is an error toast or an error log entry. It carries a piece of
  information when its text contains it.
\<close>

fun signal_text :: "signal \<Rightarrow> string" where
  "signal_text (ToastSuccess m) = m"
| "signal_text (ToastError m) = m"
| "signal_text (LogError m) = m"
| "signal_text (ConsoleLog m) = m"

fun is_failure :: "signal \<Rightarrow> bool" where
  "is_failure (ToastError m) = True"
| "is_failure (LogError m) = True"
| "is_failure _ = False"

definition carries :: "string list \<Rightarrow> signal \<Rightarrow> bool" where
  "carries parts sg = (is_failure sg \<and> list_all (\<lambda>part. sublist part (signal_text sg)) parts)"

text \<open>
  Tearing the grid down: React resets the refs of an unmounted view to \<^verbatim>\<open>null\<close>. The
  handlers read nothing else of the view.
\<close>

definition unmount :: "grid_state \<Rightarrow> grid_state" where
  "unmount s = s\<lparr>newPromptDialogRef := None, editPromptDialogRef := None\<rparr>"

definition grid_torn_down :: grid_state where
  "grid_torn_down = unmount grid_mounted"

text \<open>The settings page at rest, with the proxy saved as off.\<close>

definition proxy_off :: ProxySetting where
  "proxy_off = \<lparr>proxy_on = False, server = ''http://127.0.0.1:1234'', http = True, https = True,
                 username = [], password = []\<rparr>"

definition settings_idle :: settings_state where
  "settings_idle = \<lparr>signals = [], proxySetting = proxy_off, form = proxy_off, upserts = [],
                     ctxLength_error = [], maxTokens_error = []\<rparr>"

text \<open>
  The proxy saved as on and shown as on; and the proxy saved as off while the form's
  switch was turned on and not yet saved.
\<close>

definition settings_proxy_on :: settings_state where
  "settings_proxy_on =
     settings_idle\<lparr>proxySetting := proxy_off\<lparr>proxy_on := True\<rparr>,
                   form := proxy_off\<lparr>proxy_on := True\<rparr>\<rparr>"

definition settings_proxy_unsaved :: settings_state where
  "settings_proxy_unsaved = settings_idle\<lparr>form := proxy_off\<lparr>proxy_on := True\<rparr>\<rparr>"

text \<open>A stand-in for \<^verbatim>\<open>JSON.stringify\<close> on the proxy form, showing the flag only.\<close>

definition show_flag :: "ProxySetting \<Rightarrow> string" where
  "show_flag p = (if proxy_on p then ''{on:true}'' else ''{on:false}'')"

text \<open>The remote models of the specification's scenario, and a selector with no choice yet.\<close>

definition m1 :: remote_model where
  "m1 = \<lparr>model_id = ''m1'', created = 100\<rparr>"

definition m2 :: remote_model where
  "m2 = \<lparr>model_id = ''m2'', created = 200\<rparr>"

definition selector_fresh :: selector_state where
  "selector_fresh = \<lparr>enabled = False, apiKey = Some [], model = None, errors = Map.empty\<rparr>"

text \<open>
  The same selector mounted with \<^verbatim>\<open>enabledByDefault\<close> true: the query is enabled from the
  start, before any click and with the API key still empty.
\<close>

definition selector_enabled :: selector_state where
  "selector_enabled = \<lparr>enabled = True, apiKey = Some [], model = None, errors = Map.empty\<rparr>"

text \<open>An Azure configuration that also carries the OpenAI form's model name.\<close>

definition azure_with_model :: "(string \<times> string) list" where
  "azure_with_model =
     [(''provider'', PROVIDER_AZURE), (''apiKey'', ''k''), (''endpoint'', ''e''),
      (''apiVersion'', ''v''), (''deploymentId'', ''d''), (''model'', ''gpt'')]"


section \<open>Properties of the prompt grid\<close>

lemma setQueryData_create:
  "setQueryData (create_patch p) c = Some ((case c of None \<Rightarrow> [] | Some xs \<Rightarrow> xs) @ [p])"
  by (simp add: setQueryData_def create_patch_def split: option.splits)

lemma LIST_PROMPTS_creator_onSuccess:
  "LIST_PROMPTS (creator_onSuccess t p s) = setQueryData (create_patch p) (LIST_PROMPTS s)"
  by (simp add: creator_onSuccess_def toast_success_def Let_def)

lemma LIST_PROMPTS_updater_onSuccess:
  "LIST_PROMPTS (updater_onSuccess t p s) = setQueryData (update_patch p) (LIST_PROMPTS s)"
  by (simp add: updater_onSuccess_def toast_success_def Let_def)

lemma LIST_PROMPTS_deleter_onSuccess:
  "LIST_PROMPTS (deleter_onSuccess t p s) = setQueryData (delete_patch p) (LIST_PROMPTS s)"
  by (simp add: deleter_onSuccess_def toast_success_def Let_def)

lemma findIndex_range:
  "findIndex P xs \<noteq> - 1 \<Longrightarrow>
     0 \<le> findIndex P xs \<and> nat (findIndex P xs) < length xs \<and> P (xs ! nat (findIndex P xs))"
proof (induction xs)
  case Nil
  then show ?case by simp
next
  case (Cons x xs)
  show ?case
  proof (cases "P x")
    case True
    then show ?thesis by simp
  next
    case False
    with Cons.prems have ne: "findIndex P xs \<noteq> - 1"
      by (auto simp: Let_def split: if_splits)
    from Cons.IH [OF ne] False ne show ?thesis
      by (simp add: Let_def nat_add_distrib)
  qed
qed

lemma update_patch_ids: "cached_ids (update_patch p c) = cached_ids c"
proof (cases c)
  case None
  then show ?thesis by (simp add: update_patch_def)
next
  case (Some xs)
  let ?i = "findIndex (\<lambda>q. prompt_id q = prompt_id p) xs"
  show ?thesis
  proof (cases "?i = - 1")
    case True
    with Some show ?thesis by (simp add: update_patch_def cached_ids_def)
  next
    case False
    from findIndex_range [OF False]
    have "nat ?i < length xs" and "prompt_id (xs ! nat ?i) = prompt_id p" by simp_all
    then have "map prompt_id (xs[nat ?i := p]) = map prompt_id xs"
      by (simp add: map_update list_update_same_conv)
    with Some False show ?thesis by (simp add: update_patch_def cached_ids_def Let_def)
  qed
qed

text \<open>
  C2. After the success handler of a create, the cached collection is one entry longer
  than before (an absent entry counts as empty) and holds the id of the prompt the
  backend returned.
\<close>

theorem create_success_appends_one:
  "cached_length (LIST_PROMPTS (creator_onSuccess t prompt s)) = cached_length (LIST_PROMPTS s) + 1
   \<and> prompt_id prompt \<in> set (cached_ids (LIST_PROMPTS (creator_onSuccess t prompt s)))"
  by (simp add: LIST_PROMPTS_creator_onSuccess setQueryData_create cached_length_def cached_ids_def
      split: option.splits)

lemma cached_ids_setQueryData_create:
  "cached_ids (setQueryData (create_patch p) c) = cached_ids c @ [prompt_id p]"
  by (cases c) (simp_all add: setQueryData_create cached_ids_def)

lemma cached_ids_setQueryData_update:
  "cached_ids (setQueryData (update_patch p) c) = cached_ids c"
  using update_patch_ids [of p c]
  by (cases "update_patch p c") (simp_all add: setQueryData_def)

lemma cached_ids_setQueryData_delete:
  "cached_ids (setQueryData (delete_patch p) c) = filter (\<lambda>i. i \<noteq> prompt_id p) (cached_ids c)"
  by (cases c) (simp_all add: setQueryData_def delete_patch_def cached_ids_def filter_map comp_def)

text \<open>
  C7. If no two cached prompts share an id, then after the create patch with a prompt
  whose id is not in the cache, after the update patch and after the delete patch, still
  no two cached prompts share an id.
\<close>

theorem patches_keep_ids_distinct:
  assumes "distinct (cached_ids (LIST_PROMPTS s))"
  shows "(prompt_id created_prompt \<notin> set (cached_ids (LIST_PROMPTS s)) \<longrightarrow>
            distinct (cached_ids (LIST_PROMPTS (creator_onSuccess t created_prompt s))))
       \<and> distinct (cached_ids (LIST_PROMPTS (updater_onSuccess t updated_prompt s)))
       \<and> distinct (cached_ids (LIST_PROMPTS (deleter_onSuccess t deleted_prompt s)))"
  using assms
  by (simp add: LIST_PROMPTS_creator_onSuccess LIST_PROMPTS_updater_onSuccess
      LIST_PROMPTS_deleter_onSuccess cached_ids_setQueryData_create
      cached_ids_setQueryData_update cached_ids_setQueryData_delete)

theorem patches_keep_ids_distinct_witness:
  "distinct (cached_ids (LIST_PROMPTS grid_mounted))
   \<and> prompt_id p3 \<notin> set (cached_ids (LIST_PROMPTS grid_mounted))
   \<and> cached_ids (LIST_PROMPTS (creator_onSuccess (\<lambda>k. k) p3 grid_mounted)) = [1, 2, 3]
   \<and> LIST_PROMPTS (updater_onSuccess (\<lambda>k. k) p2_edited grid_mounted) = Some [p1, p2_edited]
   \<and> LIST_PROMPTS (deleter_onSuccess (\<lambda>k. k) p1 grid_mounted) = Some [p2]
   \<and> distinct (cached_ids (LIST_PROMPTS (creator_onSuccess (\<lambda>k. k) p3 grid_mounted)))
   \<and> distinct (cached_ids (LIST_PROMPTS (updater_onSuccess (\<lambda>k. k) p2_edited grid_mounted)))
   \<and> distinct (cached_ids (LIST_PROMPTS (deleter_onSuccess (\<lambda>k. k) p1 grid_mounted)))"
proof -
  have d: "distinct (cached_ids (LIST_PROMPTS grid_mounted))"
    by (simp add: grid_mounted_def cached_ids_def p1_def p2_def)
  have f: "prompt_id p3 \<notin> set (cached_ids (LIST_PROMPTS grid_mounted))"
    by (simp add: grid_mounted_def cached_ids_def p1_def p2_def p3_def)
  have c: "cached_ids (LIST_PROMPTS (creator_onSuccess (\<lambda>k. k) p3 grid_mounted)) = [1, 2, 3]"
    by (simp add: LIST_PROMPTS_creator_onSuccess setQueryData_create grid_mounted_def
        cached_ids_def p1_def p2_def p3_def)
  have u: "LIST_PROMPTS (updater_onSuccess (\<lambda>k. k) p2_edited grid_mounted) = Some [p1, p2_edited]"
    by (simp add: LIST_PROMPTS_updater_onSuccess setQueryData_def update_patch_def
        grid_mounted_def p1_def p2_def p2_edited_def Let_def)
  have e: "LIST_PROMPTS (deleter_onSuccess (\<lambda>k. k) p1 grid_mounted) = Some [p2]"
    by (simp add: LIST_PROMPTS_deleter_onSuccess setQueryData_def delete_patch_def
        grid_mounted_def p1_def p2_def)
  from patches_keep_ids_distinct [OF d, of p3 "\<lambda>k. k" p2_edited p1] f c u e d show ?thesis
    by simp
qed

section \<open>Failure reports and stale responses\<close>

lemma sublist_mid: "sublist b (a @ b @ c)"
  by (rule sublist_appendI)

lemma sublist_last: "sublist b (a @ b)"
  using sublist_appendI [of b a "[]"] by simp

lemma creator_onError_eq:
  "creator_onError stringify e v s =
     s\<lparr>signals := signals s @
        [LogError (''Failed to create prompt: data = '' @ stringify v @ '', error = '' @ message e),
         ToastError (''Failed to create prompt: '' @ message e)]\<rparr>"
  by (simp add: creator_onError_def log_error_def toast_error_def Let_def)

lemma updater_onError_eq:
  "updater_onError stringify e v s =
     s\<lparr>signals := signals s @
        [ConsoleLog (message e),
         LogError (''Failed to update prompt: data = '' @ stringify v @ '', error = '' @ message e),
         ToastError (''Failed to update prompt: '' @ message e)]\<rparr>"
  by (simp add: updater_onError_def log_error_def toast_error_def console_log_def Let_def)

lemma deleter_onError_eq:
  "deleter_onError stringify e v s =
     s\<lparr>signals := signals s @
        [LogError (''Failed to delete prompt: data = '' @ stringify v @ '', error = '' @ message e),
         ToastError (''Failed to delete prompt: '' @ message e)]\<rparr>"
  by (simp add: deleter_onError_def log_error_def toast_error_def Let_def)

lemma upsert_onError_eq:
  "upsert_onError failureMsg e (k, v) s =
     s\<lparr>signals := signals s @
        [LogError (''Upserting settings failed: key = '' @ k @ '', value = '' @ v @ '', '' @ message e),
         ToastError failureMsg]\<rparr>"
  by (simp add: upsert_onError_def log_error_def toast_error_def Let_def)

lemma carries_prompt_log:
  "carries [op, payload, description]
     (LogError (''Failed to '' @ op @ '': data = '' @ payload @ '', error = '' @ description))"
proof -
  have 1: "sublist op (''Failed to '' @ op @ '': data = '' @ payload @ '', error = '' @ description)"
    by (rule sublist_mid)
  have 2: "sublist payload ((''Failed to '' @ op @ '': data = '') @ payload @ '', error = '' @ description)"
    by (rule sublist_mid)
  have 3: "sublist description ((''Failed to '' @ op @ '': data = '' @ payload @ '', error = '') @ description)"
    by (rule sublist_last)
  from 1 2 3 show ?thesis by (simp add: carries_def)
qed

lemma carries_upsert_log:
  "carries [''Upserting settings'', k, v, description]
     (LogError (''Upserting settings failed: key = '' @ k @ '', value = '' @ v @ '', '' @ description))"
proof -
  have 1: "sublist ''Upserting settings'' (''Upserting settings'' @ '' failed: key = '' @ k @ '', value = '' @ v @ '', '' @ description)"
    using sublist_appendI [of "''Upserting settings''" "[]"] by simp
  have 2: "sublist k (''Upserting settings failed: key = '' @ k @ '', value = '' @ v @ '', '' @ description)"
    by (rule sublist_mid)
  have 3: "sublist v ((''Upserting settings failed: key = '' @ k @ '', value = '') @ v @ '', '' @ description)"
    by (rule sublist_mid)
  have 4: "sublist description ((''Upserting settings failed: key = '' @ k @ '', value = '' @ v @ '', '') @ description)"
    by (rule sublist_last)
  from 1 2 3 4 show ?thesis by (simp add: carries_def)
qed

text \<open>
  C1. The error handler of each mutation (create, update and delete a prompt, upsert a
  setting) changes nothing but the signals: the cached prompts and the saved settings are
  as before. It appends an error log entry whose text contains the operation's name, the
  submitted payload and the error's message, and an error toast.
\<close>

theorem failed_mutation_leaves_cache_and_reports:
  "(let s' = creator_onError stringify e v s;
        entry = LogError (''Failed to create prompt: data = '' @ stringify v @ '', error = '' @ message e)
    in LIST_PROMPTS s' = LIST_PROMPTS s
       \<and> s' = s\<lparr>signals := signals s @ [entry, ToastError (''Failed to create prompt: '' @ message e)]\<rparr>
       \<and> carries [''create prompt'', stringify v, message e] entry)
   \<and> (let s' = updater_onError stringify e v s;
        entry = LogError (''Failed to update prompt: data = '' @ stringify v @ '', error = '' @ message e)
    in LIST_PROMPTS s' = LIST_PROMPTS s
       \<and> s' = s\<lparr>signals := signals s @ [ConsoleLog (message e), entry,
                                            ToastError (''Failed to update prompt: '' @ message e)]\<rparr>
       \<and> carries [''update prompt'', stringify v, message e] entry)
   \<and> (let s' = deleter_onError stringify e v s;
        entry = LogError (''Failed to delete prompt: data = '' @ stringify v @ '', error = '' @ message e)
    in LIST_PROMPTS s' = LIST_PROMPTS s
       \<and> s' = s\<lparr>signals := signals s @ [entry, ToastError (''Failed to delete prompt: '' @ message e)]\<rparr>
       \<and> carries [''delete prompt'', stringify v, message e] entry)
   \<and> (let u' = upsert_onError failureMsg e (k, x) u;
        entry = LogError (''Upserting settings failed: key = '' @ k @ '', value = '' @ x @ '', '' @ message e)
    in proxySetting u' = proxySetting u
       \<and> u' = u\<lparr>signals := signals u @ [entry, ToastError failureMsg]\<rparr>
       \<and> carries [''Upserting settings'', k, x, message e] entry)"
  using carries_prompt_log [of "''create prompt''" "stringify v" "message e"]
    carries_prompt_log [of "''update prompt''" "stringify v" "message e"]
    carries_prompt_log [of "''delete prompt''" "stringify v" "message e"]
    carries_upsert_log [of k x "message e"]
  by (simp add: Let_def creator_onError_eq updater_onError_eq deleter_onError_eq upsert_onError_eq)


lemma creator_onSuccess_eq:
  "creator_onSuccess t p s =
     s\<lparr>signals := signals s @ [ToastSuccess (t ''page-prompts:message:create-prompt-success'')],
       LIST_PROMPTS := setQueryData (create_patch p) (LIST_PROMPTS s),
       newPromptDialogRef := close_dialog (newPromptDialogRef s)\<rparr>"
  by (simp add: creator_onSuccess_def toast_success_def Let_def)

lemma updater_onSuccess_eq:
  "updater_onSuccess t p s =
     s\<lparr>signals := signals s @ [ToastSuccess (t ''page-prompts:message:update-prompt-success'')],
       LIST_PROMPTS := setQueryData (update_patch p) (LIST_PROMPTS s),
       editPromptDialogRef := close_dialog (editPromptDialogRef s)\<rparr>"
  by (simp add: updater_onSuccess_def toast_success_def Let_def)

lemma deleter_onSuccess_eq:
  "deleter_onSuccess t p s =
     s\<lparr>signals := signals s @ [ToastSuccess (t ''page-prompts:message:delete-prompt-success'')],
       LIST_PROMPTS := setQueryData (delete_patch p) (LIST_PROMPTS s),
       editPromptDialogRef := close_dialog (editPromptDialogRef s)\<rparr>"
  by (simp add: deleter_onSuccess_def toast_success_def Let_def)

text \<open>
  C9, as stated, fails: on a torn-down grid (both refs \<^verbatim>\<open>null\<close>) the create handler still
  appends the returned prompt to the cache and still emits the success toast.
\<close>

theorem stale_response_counterexample:
  "newPromptDialogRef grid_torn_down = None
   \<and> editPromptDialogRef grid_torn_down = None
   \<and> LIST_PROMPTS grid_torn_down = Some [p1, p2]
   \<and> signals grid_torn_down = []
   \<and> LIST_PROMPTS (creator_onSuccess (\<lambda>k. k) p3 grid_torn_down) = Some [p1, p2, p3]
   \<and> signals (creator_onSuccess (\<lambda>k. k) p3 grid_torn_down)
       = [ToastSuccess ''page-prompts:message:create-prompt-success'']"
  by (simp add: grid_torn_down_def unmount_def grid_mounted_def creator_onSuccess_eq
      setQueryData_create)

text \<open>
  C9, amended. The response handlers make no check of the view. Run on a torn-down grid,
  a success handler patches the cache entry and emits the success toast exactly as on a
  mounted one, and an error handler emits its signals; the teardown only makes the
  dialog-close step a no-op. The upsert handlers emit their toast on every state.
\<close>

theorem handlers_do_not_check_the_view:
  "LIST_PROMPTS (creator_onSuccess t p (unmount s)) = setQueryData (create_patch p) (LIST_PROMPTS s)
   \<and> signals (creator_onSuccess t p (unmount s))
       = signals s @ [ToastSuccess (t ''page-prompts:message:create-prompt-success'')]
   \<and> LIST_PROMPTS (updater_onSuccess t p (unmount s)) = setQueryData (update_patch p) (LIST_PROMPTS s)
   \<and> signals (updater_onSuccess t p (unmount s))
       = signals s @ [ToastSuccess (t ''page-prompts:message:update-prompt-success'')]
   \<and> LIST_PROMPTS (deleter_onSuccess t p (unmount s)) = setQueryData (delete_patch p) (LIST_PROMPTS s)
   \<and> signals (deleter_onSuccess t p (unmount s))
       = signals s @ [ToastSuccess (t ''page-prompts:message:delete-prompt-success'')]
   \<and> creator_onSuccess t p (unmount s) = unmount (creator_onSuccess t p s)
   \<and> updater_onSuccess t p (unmount s) = unmount (updater_onSuccess t p s)
   \<and> deleter_onSuccess t p (unmount s) = unmount (deleter_onSuccess t p s)
   \<and> creator_onError stringify e v (unmount s) = unmount (creator_onError stringify e v s)
   \<and> updater_onError stringify e v (unmount s) = unmount (updater_onError stringify e v s)
   \<and> deleter_onError stringify e v (unmount s) = unmount (deleter_onError stringify e v s)
   \<and> signals (creator_onError stringify e v (unmount s)) \<noteq> signals (unmount s)
   \<and> signals (updater_onError stringify e v (unmount s)) \<noteq> signals (unmount s)
   \<and> signals (deleter_onError stringify e v (unmount s)) \<noteq> signals (unmount s)
   \<and> signals (upsert_onSuccess successMsg callback u) = signals (callback u) @ [ToastSuccess successMsg]
   \<and> signals (upsert_onError failureMsg e kv u) \<noteq> signals u"
  by (simp add: creator_onSuccess_eq updater_onSuccess_eq deleter_onSuccess_eq
      creator_onError_eq updater_onError_eq deleter_onError_eq unmount_def close_dialog_def
      upsert_onSuccess_def upsert_onError_def toast_success_def toast_error_def log_error_def Let_def)


section \<open>Numeric settings\<close>

lemma isInteger_iff: "isInteger q \<longleftrightarrow> (\<exists>n::int. q = of_int n)"
  by (simp add: isInteger_def)

lemma safeParse_Some_iff:
  "safeParse_int_min_max Number lo hi raw = Some q
     \<longleftrightarrow> (\<exists>n::int. Number raw = Finite (of_int n) \<and> lo \<le> n \<and> n \<le> hi \<and> q = of_int n)"
  by (cases "Number raw") (auto simp: safeParse_int_min_max_def isInteger_iff)

lemma safeParse_None_iff:
  "safeParse_int_min_max Number lo hi raw = None
     \<longleftrightarrow> \<not> (\<exists>n::int. Number raw = Finite (of_int n) \<and> lo \<le> n \<and> n \<le> hi)"
  using safeParse_Some_iff [of Number lo hi raw]
  by (cases "safeParse_int_min_max Number lo hi raw") auto

lemma toString_of_nonneg: "0 \<le> n \<Longrightarrow> toString (of_int n) = digits (nat n)"
  by (simp add: toString_def)

text \<open>
  C3. The context-length card forwards its input to the upsert mutation iff the input
  coerces to an integer from 0 to 65535, and the max-tokens card iff it coerces to an
  integer from 1 to 65535; the value sent is the integer's decimal text. On every other
  input the card sets its error message and issues no request.
\<close>

theorem numeric_settings_accept_exactly_the_range:
  "(upserts (SettingContextLength_onSaveClick Number errMsg raw s) \<noteq> upserts s
      \<longleftrightarrow> (\<exists>n::int. Number raw = Finite (of_int n) \<and> 0 \<le> n \<and> n \<le> 65535))
   \<and> (\<forall>n::int. Number raw = Finite (of_int n) \<and> 0 \<le> n \<and> n \<le> 65535 \<longrightarrow>
        SettingContextLength_onSaveClick Number errMsg raw s
          = s\<lparr>upserts := upserts s @ [(SETTING_MODELS_CONTEXT_LENGTH, digits (nat n))]\<rparr>)
   \<and> (\<not> (\<exists>n::int. Number raw = Finite (of_int n) \<and> 0 \<le> n \<and> n \<le> 65535) \<longrightarrow>
        SettingContextLength_onSaveClick Number errMsg raw s = s\<lparr>ctxLength_error := errMsg\<rparr>)
   \<and> (upserts (SettingMaxTokens_onSaveClick Number errMsg raw s) \<noteq> upserts s
      \<longleftrightarrow> (\<exists>n::int. Number raw = Finite (of_int n) \<and> 1 \<le> n \<and> n \<le> 65535))
   \<and> (\<forall>n::int. Number raw = Finite (of_int n) \<and> 1 \<le> n \<and> n \<le> 65535 \<longrightarrow>
        SettingMaxTokens_onSaveClick Number errMsg raw s
          = s\<lparr>upserts := upserts s @ [(SETTING_MODELS_MAX_TOKENS, digits (nat n))]\<rparr>)
   \<and> (\<not> (\<exists>n::int. Number raw = Finite (of_int n) \<and> 1 \<le> n \<and> n \<le> 65535) \<longrightarrow>
        SettingMaxTokens_onSaveClick Number errMsg raw s = s\<lparr>maxTokens_error := errMsg\<rparr>)"
proof -
  have ctx: "SettingContextLength_onSaveClick Number errMsg raw s
          = s\<lparr>upserts := upserts s @ [(SETTING_MODELS_CONTEXT_LENGTH, digits (nat n))]\<rparr>"
    if "Number raw = Finite (of_int n)" "0 \<le> n" "n \<le> 65535" for n :: int
  proof -
    from that have "safeParse_int_min_max Number 0 65535 raw = Some (of_int n)"
      by (subst safeParse_Some_iff) auto
    with that show ?thesis
      by (simp add: SettingContextLength_onSaveClick_def updater_def toString_of_nonneg)
  qed
  have ctx_no: "SettingContextLength_onSaveClick Number errMsg raw s = s\<lparr>ctxLength_error := errMsg\<rparr>"
    if "\<not> (\<exists>n::int. Number raw = Finite (of_int n) \<and> 0 \<le> n \<and> n \<le> 65535)"
  proof -
    from that have "safeParse_int_min_max Number 0 65535 raw = None"
      by (subst safeParse_None_iff) simp
    then show ?thesis by (simp add: SettingContextLength_onSaveClick_def)
  qed
  have mx: "SettingMaxTokens_onSaveClick Number errMsg raw s
          = s\<lparr>upserts := upserts s @ [(SETTING_MODELS_MAX_TOKENS, digits (nat n))]\<rparr>"
    if "Number raw = Finite (of_int n)" "1 \<le> n" "n \<le> 65535" for n :: int
  proof -
    from that have "safeParse_int_min_max Number 1 65535 raw = Some (of_int n)"
      by (subst safeParse_Some_iff) auto
    with that show ?thesis
      by (simp add: SettingMaxTokens_onSaveClick_def updater_def toString_of_nonneg)
  qed
  have mx_no: "SettingMaxTokens_onSaveClick Number errMsg raw s = s\<lparr>maxTokens_error := errMsg\<rparr>"
    if "\<not> (\<exists>n::int. Number raw = Finite (of_int n) \<and> 1 \<le> n \<and> n \<le> 65535)"
  proof -
    from that have "safeParse_int_min_max Number 1 65535 raw = None"
      by (subst safeParse_None_iff) simp
    then show ?thesis by (simp add: SettingMaxTokens_onSaveClick_def)
  qed
  have ctx_iff: "upserts (SettingContextLength_onSaveClick Number errMsg raw s) \<noteq> upserts s
      \<longleftrightarrow> (\<exists>n::int. Number raw = Finite (of_int n) \<and> 0 \<le> n \<and> n \<le> 65535)"
  proof (cases "\<exists>n::int. Number raw = Finite (of_int n) \<and> 0 \<le> n \<and> n \<le> 65535")
    case True
    then obtain n :: int where "Number raw = Finite (of_int n)" "0 \<le> n" "n \<le> 65535" by blast
    from ctx [OF this] True show ?thesis by simp
  next
    case False
    from ctx_no [OF this] False show ?thesis by simp
  qed
  have mx_iff: "upserts (SettingMaxTokens_onSaveClick Number errMsg raw s) \<noteq> upserts s
      \<longleftrightarrow> (\<exists>n::int. Number raw = Finite (of_int n) \<and> 1 \<le> n \<and> n \<le> 65535)"
  proof (cases "\<exists>n::int. Number raw = Finite (of_int n) \<and> 1 \<le> n \<and> n \<le> 65535")
    case True
    then obtain n :: int where "Number raw = Finite (of_int n)" "1 \<le> n" "n \<le> 65535" by blast
    from mx [OF this] True show ?thesis by simp
  next
    case False
    from mx_no [OF this] False show ?thesis by simp
  qed
  from ctx ctx_no mx mx_no ctx_iff mx_iff show ?thesis by blast
qed

lemma decimal_5: "decimal_Number (Some ''5'') = Finite (of_int 5)"
  by (simp add: decimal_Number_def digit_value_def)

lemma decimal_100000: "decimal_Number (Some ''100000'') = Finite (of_int 100000)"
  by (simp add: decimal_Number_def digit_value_def)

lemma decimal_0: "decimal_Number (Some ''0'') = Finite (of_int 0)"
  by (simp add: decimal_Number_def digit_value_def)

lemma digits_5: "digits 5 = ''5''"
  by (simp add: digits.simps digit_char_def)

theorem numeric_settings_witness:
  "decimal_Number (Some ''5'') = Finite (of_int 5)
   \<and> SettingContextLength_onSaveClick decimal_Number ''invalid'' (Some ''5'') settings_idle
       = settings_idle\<lparr>upserts := [(''models:context_length'', ''5'')]\<rparr>
   \<and> decimal_Number (Some ''100000'') = Finite (of_int 100000)
   \<and> SettingContextLength_onSaveClick decimal_Number ''invalid'' (Some ''100000'') settings_idle
       = settings_idle\<lparr>ctxLength_error := ''invalid''\<rparr>
   \<and> decimal_Number (Some ''0'') = Finite (of_int 0)
   \<and> SettingMaxTokens_onSaveClick decimal_Number ''invalid'' (Some ''0'') settings_idle
       = settings_idle\<lparr>maxTokens_error := ''invalid''\<rparr>"
proof -
  have u: "upserts settings_idle = []"
    by (simp add: settings_idle_def)
  have no1: "\<not> (\<exists>n::int. decimal_Number (Some ''100000'') = Finite (of_int n) \<and> 0 \<le> n \<and> n \<le> 65535)"
    by (simp add: decimal_100000)
  have no2: "\<not> (\<exists>n::int. decimal_Number (Some ''0'') = Finite (of_int n) \<and> 1 \<le> n \<and> n \<le> 65535)"
    by (simp add: decimal_0)
  from numeric_settings_accept_exactly_the_range
         [of decimal_Number "''invalid''" "Some ''5''" settings_idle]
  have a: "SettingContextLength_onSaveClick decimal_Number ''invalid'' (Some ''5'') settings_idle
       = settings_idle\<lparr>upserts := upserts settings_idle @ [(SETTING_MODELS_CONTEXT_LENGTH, digits (nat 5))]\<rparr>"
    using decimal_5 by auto
  from numeric_settings_accept_exactly_the_range
         [of decimal_Number "''invalid''" "Some ''100000''" settings_idle] no1
  have b: "SettingContextLength_onSaveClick decimal_Number ''invalid'' (Some ''100000'') settings_idle
       = settings_idle\<lparr>ctxLength_error := ''invalid''\<rparr>"
    by blast
  from numeric_settings_accept_exactly_the_range
         [of decimal_Number "''invalid''" "Some ''0''" settings_idle] no2
  have c: "SettingMaxTokens_onSaveClick decimal_Number ''invalid'' (Some ''0'') settings_idle
       = settings_idle\<lparr>maxTokens_error := ''invalid''\<rparr>"
    by blast
  from a b c u decimal_5 decimal_100000 decimal_0 digits_5 show ?thesis
    by (simp add: SETTING_MODELS_CONTEXT_LENGTH_def)
qed

section \<open>The proxy auto-save\<close>

lemma Switch_off_eq:
  "proxy_on (form s) \<Longrightarrow>
   Switch_onCheckedChange K stringify False s =
     (if proxy_on (proxySetting s)
      then s\<lparr>form := (form s)\<lparr>proxy_on := False\<rparr>,
             upserts := upserts s @ [(K, stringify ((form s)\<lparr>proxy_on := False\<rparr>))]\<rparr>
      else s\<lparr>form := (form s)\<lparr>proxy_on := False\<rparr>\<rparr>)"
  by (simp add: Switch_onCheckedChange_def SettingProxy_effect_def updater_def Let_def)

lemma Switch_on_upserts:
  "upserts (Switch_onCheckedChange K stringify True s) = upserts s"
  by (simp add: Switch_onCheckedChange_def SettingProxy_effect_def updater_def Let_def)

text \<open>
  C6, as stated, fails: with the proxy saved as off, turning the form's switch on and then
  off again takes the flag from true to false and no upsert fires.
\<close>

theorem proxy_turned_off_counterexample:
  "proxy_on (form settings_proxy_unsaved)
   \<and> proxy_on (form (Switch_onCheckedChange ''network:proxy'' show_flag False settings_proxy_unsaved)) = False
   \<and> upserts settings_proxy_unsaved = []
   \<and> upserts (Switch_onCheckedChange ''network:proxy'' show_flag False settings_proxy_unsaved) = []"
  by (simp add: Switch_onCheckedChange_def SettingProxy_effect_def Let_def
      settings_proxy_unsaved_def settings_idle_def proxy_off_def)

text \<open>
  C6, amended. When the form's flag goes from true to false while the saved proxy setting
  is on, one upsert of the proxy setting fires at once, carrying the form's current values
  with the flag off; no save action is involved. With the saved setting off, turning the
  flag off fires nothing, and turning the flag on never fires anything.
\<close>

theorem proxy_auto_save_when_saved_on:
  "(proxy_on (proxySetting s) \<and> proxy_on (form s) \<longrightarrow>
      Switch_onCheckedChange SETTING_NETWORK_PROXY stringify False s
        = s\<lparr>form := (form s)\<lparr>proxy_on := False\<rparr>,
             upserts := upserts s @ [(SETTING_NETWORK_PROXY, stringify ((form s)\<lparr>proxy_on := False\<rparr>))]\<rparr>)
   \<and> (\<not> proxy_on (proxySetting s) \<longrightarrow>
        upserts (Switch_onCheckedChange SETTING_NETWORK_PROXY stringify False s) = upserts s)
   \<and> upserts (Switch_onCheckedChange SETTING_NETWORK_PROXY stringify True s) = upserts s"
  by (simp add: Switch_off_eq Switch_on_upserts)
     (simp add: Switch_onCheckedChange_def SettingProxy_effect_def Let_def)

theorem proxy_auto_save_when_saved_on_witness:
  "proxy_on (proxySetting settings_proxy_on) \<and> proxy_on (form settings_proxy_on)
   \<and> upserts (Switch_onCheckedChange ''network:proxy'' show_flag False settings_proxy_on)
       = [(''network:proxy'', ''{on:false}'')]
   \<and> \<not> proxy_on (proxySetting settings_idle)
   \<and> upserts (Switch_onCheckedChange ''network:proxy'' show_flag False settings_idle) = []
   \<and> upserts (Switch_onCheckedChange ''network:proxy'' show_flag True settings_idle) = []"
proof -
  have on: "proxy_on (proxySetting settings_proxy_on) \<and> proxy_on (form settings_proxy_on)"
    by (simp add: settings_proxy_on_def)
  have off: "\<not> proxy_on (proxySetting settings_idle)"
    by (simp add: settings_idle_def proxy_off_def)
  have u: "upserts settings_proxy_on = []" "upserts settings_idle = []"
    by (simp_all add: settings_proxy_on_def settings_idle_def)
  have f: "show_flag ((form settings_proxy_on)\<lparr>proxy_on := False\<rparr>) = ''{on:false}''"
    by (simp add: show_flag_def)
  from proxy_auto_save_when_saved_on [of settings_proxy_on "''network:proxy''" show_flag] on
  have a: "Switch_onCheckedChange ''network:proxy'' show_flag False settings_proxy_on
        = settings_proxy_on\<lparr>form := (form settings_proxy_on)\<lparr>proxy_on := False\<rparr>,
             upserts := upserts settings_proxy_on @ [(''network:proxy'', show_flag ((form settings_proxy_on)\<lparr>proxy_on := False\<rparr>))]\<rparr>"
    by blast
  from proxy_auto_save_when_saved_on [of settings_idle "''network:proxy''" show_flag] off
  have b: "upserts (Switch_onCheckedChange ''network:proxy'' show_flag False settings_idle) = upserts settings_idle"
    and c: "upserts (Switch_onCheckedChange ''network:proxy'' show_flag True settings_idle) = upserts settings_idle"
    by blast+
  from a b c on off u f show ?thesis by simp
qed

section \<open>The remote model list\<close>

lemma mset_insert_by: "mset (insert_by c x ys) = add_mset x (mset ys)"
  by (induction ys) auto

lemma set_insert_by: "set (insert_by c x ys) = insert x (set ys)"
  by (induction ys) auto

lemma sorted_insert_by:
  "sorted_wrt (\<lambda>a b. created b \<le> created a) ys \<Longrightarrow>
   sorted_wrt (\<lambda>a b. created b \<le> created a) (insert_by (\<lambda>a b. created b - created a) x ys)"
  by (induction ys) (auto simp: set_insert_by)

lemma filter_insert_by:
  "filter (\<lambda>m. created m = k) (insert_by (\<lambda>a b. created b - created a) x ys)
     = (if created x = k then x # filter (\<lambda>m. created m = k) ys else filter (\<lambda>m. created m = k) ys)"
  by (induction ys) auto

lemma mset_select: "mset (select raw) = mset raw"
  by (induction raw) (simp_all add: select_def array_sort_def mset_insert_by)

lemma sorted_select: "sorted_wrt (\<lambda>a b. created b \<le> created a) (select raw)"
  by (induction raw) (simp_all add: select_def array_sort_def sorted_insert_by)

lemma stable_select:
  "filter (\<lambda>m. created m = k) (select raw) = filter (\<lambda>m. created m = k) raw"
  by (induction raw) (simp_all add: select_def array_sort_def filter_insert_by)

lemma select_nonempty: "raw \<noteq> [] \<Longrightarrow> select raw \<noteq> []"
  using mset_select [of raw] by (metis mset_zero_iff)

text \<open>
  C4. For a non-empty list from the backend, the list shown is that list sorted by
  \<^verbatim>\<open>created\<close>, newest first: it is in descending order, it has the same entries, and
  entries with equal timestamps keep their order. If the form's model field is unset or
  empty, the effect sets it to the id of the first entry shown.
\<close>

theorem remote_models_sorted_newest_first:
  assumes "raw \<noteq> []"
  shows "sorted_wrt (\<lambda>a b. created b \<le> created a) (select raw)
       \<and> mset (select raw) = mset raw
       \<and> (\<forall>k. filter (\<lambda>m. created m = k) (select raw) = filter (\<lambda>m. created m = k) raw)
       \<and> displayed (select raw) = map model_id (select raw)
       \<and> select raw \<noteq> []
       \<and> (model s = None \<or> model s = Some '''' \<longrightarrow>
            default_selection_effect (Some (select raw)) s
              = s\<lparr>model := Some (model_id (hd (select raw)))\<rparr>)"
proof -
  from assms obtain m ms where sel: "select raw = m # ms"
    using select_nonempty [of raw] by (cases "select raw") auto
  have "default_selection_effect (Some (select raw)) s = s\<lparr>model := Some (model_id (hd (select raw)))\<rparr>"
    if "model s = None \<or> model s = Some ''''"
    using that sel by (auto simp: default_selection_effect_def)
  moreover from sel have "select raw \<noteq> []" by simp
  ultimately show ?thesis
    using sorted_select [of raw] mset_select [of raw] stable_select [of _ raw]
    by (simp add: displayed_def)
qed

theorem remote_models_sorted_newest_first_witness:
  "[m1, m2] \<noteq> []
   \<and> displayed (select [m1, m2]) = [''m2'', ''m1'']
   \<and> model selector_fresh = None
   \<and> model (default_selection_effect (Some (select [m1, m2])) selector_fresh) = Some ''m2''"
proof -
  have sel: "select [m1, m2] = [m2, m1]"
    by (simp add: select_def array_sort_def m1_def m2_def)
  have none: "model selector_fresh = None"
    by (simp add: selector_fresh_def)
  from remote_models_sorted_newest_first [of "[m1, m2]" selector_fresh] sel none
  show ?thesis by (simp add: displayed_def m1_def m2_def)
qed

section \<open>The new-model dialog and validation\<close>

lemma validate_model_rejects:
  "map_of config ''provider'' = Some tag \<Longrightarrow> required_fields tag = Some required \<Longrightarrow>
   config_fields config \<noteq> required \<Longrightarrow>
   validate_model config = Inl ((required - config_fields config) \<union> (config_fields config - required))
   \<and> (required - config_fields config) \<union> (config_fields config - required) \<noteq> {}"
  by (auto simp: validate_model_def)

lemma validate_model_accepts:
  assumes v: "validate_model config = Inr accepted"
  shows "accepted = config \<and>
   (\<exists>tag. map_of config ''provider'' = Some tag \<and> required_fields tag = Some (config_fields config))"
proof (cases "map_of config ''provider''")
  case None
  with v show ?thesis by (simp add: validate_model_def)
next
  case (Some tag)
  show ?thesis
  proof (cases "required_fields tag")
    case None
    with Some v show ?thesis by (simp add: validate_model_def)
  next
    case req: (Some required)
    with Some v show ?thesis
      by (cases "config_fields config = required") (simp_all add: validate_model_def)
  qed
qed

lemma renderForm_OPENAI:
  "renderForm (Some PROVIDER_OPENAI)
     = (ModelForm_OpenAI_New, [(''provider'', PROVIDER_OPENAI), (''apiKey'', []), (''model'', [])])"
  by (simp add: renderForm_def)

lemma PROVIDER_distinct: "PROVIDER_AZURE \<noteq> PROVIDER_OPENAI"
  by (simp add: PROVIDER_OPENAI_def PROVIDER_AZURE_def)

lemma renderForm_default:
  "provider \<noteq> Some PROVIDER_OPENAI \<Longrightarrow>
   renderForm provider
     = (ModelForm_Azure_New,
        [(''provider'', PROVIDER_AZURE), (''apiKey'', []), (''endpoint'', []),
         (''apiVersion'', []), (''deploymentId'', [])])"
  by (simp add: renderForm_def)

lemma renderForm_AZURE:
  "renderForm (Some PROVIDER_AZURE)
     = (ModelForm_Azure_New,
        [(''provider'', PROVIDER_AZURE), (''apiKey'', []), (''endpoint'', []),
         (''apiVersion'', []), (''deploymentId'', [])])"
  by (rule renderForm_default) (simp add: PROVIDER_distinct)

lemma config_fields_Cons_provider:
  "config_fields ((''provider'', v) # rest) = set (map fst rest) - {''provider''}"
  by (auto simp: config_fields_def)

lemma fields_OPENAI:
  "config_fields (snd (renderForm (Some PROVIDER_OPENAI))) = {''apiKey'', ''model''}"
  by (simp add: renderForm_OPENAI config_fields_Cons_provider)

lemma fields_AZURE:
  "config_fields (snd (renderForm (Some PROVIDER_AZURE)))
     = {''apiKey'', ''endpoint'', ''apiVersion'', ''deploymentId''}"
  by (simp add: renderForm_AZURE config_fields_Cons_provider)

lemma required_OPENAI: "required_fields PROVIDER_OPENAI = Some {''apiKey'', ''model''}"
  by (simp add: required_fields_def)

lemma required_AZURE:
  "required_fields PROVIDER_AZURE = Some {''apiKey'', ''endpoint'', ''apiVersion'', ''deploymentId''}"
  by (simp add: required_fields_def PROVIDER_distinct)

text \<open>
  C8. The dialog offers each supported provider tag its own form, whose initial model
  declares that tag and has exactly the fields required for it: the API key and the model
  for OpenAI; the API key, endpoint, API version and deployment id for Azure. Every other
  value of the dialog's provider state gets the Azure form. Validation, as the
  specification words it, refuses a configuration whose fields are not the required set
  of its declared tag and names the offending fields; a configuration it accepts is
  returned as it was given, and its fields are the required set of its tag.
\<close>

theorem provider_tag_fixes_the_fields:
  "fst (renderForm (Some PROVIDER_OPENAI)) = ModelForm_OpenAI_New
   \<and> map_of (snd (renderForm (Some PROVIDER_OPENAI))) ''provider'' = Some PROVIDER_OPENAI
   \<and> config_fields (snd (renderForm (Some PROVIDER_OPENAI))) = {''apiKey'', ''model''}
   \<and> required_fields PROVIDER_OPENAI = Some {''apiKey'', ''model''}
   \<and> fst (renderForm (Some PROVIDER_AZURE)) = ModelForm_Azure_New
   \<and> map_of (snd (renderForm (Some PROVIDER_AZURE))) ''provider'' = Some PROVIDER_AZURE
   \<and> config_fields (snd (renderForm (Some PROVIDER_AZURE)))
       = {''apiKey'', ''endpoint'', ''apiVersion'', ''deploymentId''}
   \<and> required_fields PROVIDER_AZURE = Some {''apiKey'', ''endpoint'', ''apiVersion'', ''deploymentId''}
   \<and> (provider \<noteq> Some PROVIDER_OPENAI \<longrightarrow> renderForm provider = renderForm (Some PROVIDER_AZURE))
   \<and> (map_of config ''provider'' = Some tag \<and> required_fields tag = Some required
        \<and> config_fields config \<noteq> required \<longrightarrow>
        (\<exists>offending. validate_model config = Inl offending \<and> offending \<noteq> {}))
   \<and> (validate_model config = Inr accepted \<longrightarrow> accepted = config \<and>
        (\<exists>tag. map_of config ''provider'' = Some tag \<and> required_fields tag = Some (config_fields config)))"
proof -
  have o: "fst (renderForm (Some PROVIDER_OPENAI)) = ModelForm_OpenAI_New
           \<and> map_of (snd (renderForm (Some PROVIDER_OPENAI))) ''provider'' = Some PROVIDER_OPENAI"
    by (simp add: renderForm_OPENAI)
  have a: "fst (renderForm (Some PROVIDER_AZURE)) = ModelForm_Azure_New
           \<and> map_of (snd (renderForm (Some PROVIDER_AZURE))) ''provider'' = Some PROVIDER_AZURE"
    by (simp add: renderForm_AZURE)
  have dflt: "provider \<noteq> Some PROVIDER_OPENAI \<longrightarrow> renderForm provider = renderForm (Some PROVIDER_AZURE)"
    by (simp add: renderForm_default renderForm_AZURE)
  have rej: "map_of config ''provider'' = Some tag \<and> required_fields tag = Some required
        \<and> config_fields config \<noteq> required \<longrightarrow>
        (\<exists>offending. validate_model config = Inl offending \<and> offending \<noteq> {})"
    using validate_model_rejects [of config tag required] by blast
  have acc: "validate_model config = Inr accepted \<longrightarrow> accepted = config \<and>
        (\<exists>tag. map_of config ''provider'' = Some tag \<and> required_fields tag = Some (config_fields config))"
    using validate_model_accepts [of config accepted] by blast
  from o a fields_OPENAI fields_AZURE required_OPENAI required_AZURE dflt rej acc
  show ?thesis by (intro conjI) (erule conjunct1 conjunct2 | assumption)+
qed

lemma fields_azure_with_model:
  "config_fields azure_with_model
     = {''apiKey'', ''endpoint'', ''apiVersion'', ''deploymentId'', ''model''}"
  by (simp add: azure_with_model_def config_fields_Cons_provider)

lemma model_not_required_by_AZURE:
  "''model'' \<notin> {''apiKey'', ''endpoint'', ''apiVersion'', ''deploymentId''}"
  by simp

lemma azure_with_model_mismatch:
  "config_fields azure_with_model \<noteq> {''apiKey'', ''endpoint'', ''apiVersion'', ''deploymentId''}"
proof
  assume eq: "config_fields azure_with_model = {''apiKey'', ''endpoint'', ''apiVersion'', ''deploymentId''}"
  have "''model'' \<in> config_fields azure_with_model"
    by (simp add: fields_azure_with_model)
  then have "''model'' \<in> {''apiKey'', ''endpoint'', ''apiVersion'', ''deploymentId''}"
    by (simp only: eq)
  with model_not_required_by_AZURE show False by (rule notE)
qed

theorem provider_tag_fixes_the_fields_witness:
  "map_of azure_with_model ''provider'' = Some PROVIDER_AZURE
   \<and> required_fields PROVIDER_AZURE = Some {''apiKey'', ''endpoint'', ''apiVersion'', ''deploymentId''}
   \<and> config_fields azure_with_model \<noteq> {''apiKey'', ''endpoint'', ''apiVersion'', ''deploymentId''}
   \<and> (\<exists>offending. validate_model azure_with_model = Inl offending \<and> offending \<noteq> {})
   \<and> renderForm None = renderForm (Some PROVIDER_AZURE)"
proof -
  have tag: "map_of azure_with_model ''provider'' = Some PROVIDER_AZURE"
    by (simp add: azure_with_model_def)
  have none: "None \<noteq> Some PROVIDER_OPENAI"
    by simp
  note all = provider_tag_fixes_the_fields
         [of None azure_with_model PROVIDER_AZURE
             "{''apiKey'', ''endpoint'', ''apiVersion'', ''deploymentId''}" azure_with_model]
  have dflt: "None \<noteq> Some PROVIDER_OPENAI \<longrightarrow> renderForm None = renderForm (Some PROVIDER_AZURE)"
    using all by - (elim conjE, assumption)
  have rej: "map_of azure_with_model ''provider'' = Some PROVIDER_AZURE
        \<and> required_fields PROVIDER_AZURE = Some {''apiKey'', ''endpoint'', ''apiVersion'', ''deploymentId''}
        \<and> config_fields azure_with_model \<noteq> {''apiKey'', ''endpoint'', ''apiVersion'', ''deploymentId''}
        \<longrightarrow> (\<exists>offending. validate_model azure_with_model = Inl offending \<and> offending \<noteq> {})"
    using all by - (elim conjE, assumption)
  have hyp: "map_of azure_with_model ''provider'' = Some PROVIDER_AZURE
        \<and> required_fields PROVIDER_AZURE = Some {''apiKey'', ''endpoint'', ''apiVersion'', ''deploymentId''}
        \<and> config_fields azure_with_model \<noteq> {''apiKey'', ''endpoint'', ''apiVersion'', ''deploymentId''}"
    using tag required_AZURE azure_with_model_mismatch by (intro conjI)
  from rej hyp have r: "\<exists>offending. validate_model azure_with_model = Inl offending \<and> offending \<noteq> {}"
    by (rule mp)
  from dflt none have d: "renderForm None = renderForm (Some PROVIDER_AZURE)"
    by (rule mp)
  from tag required_AZURE azure_with_model_mismatch r d show ?thesis
    by (intro conjI)
qed

section \<open>The load-models button\<close>

lemma onClick_empty:
  "apiKey s = Some [] \<Longrightarrow>
   onClick t s = Inr (s\<lparr>errors := (errors s)(''apiKey'' \<mapsto> t ''error:validation:empty-api-key'')\<rparr>)"
  by (simp add: onClick_def)

lemma onClick_nonempty:
  "apiKey s = Some k \<Longrightarrow> k \<noteq> [] \<Longrightarrow> onClick t s = Inr (s\<lparr>enabled := True\<rparr>)"
  by (simp add: onClick_def)

lemma onClick_enables:
  assumes "onClick t s = Inr s'" and "enabled s'" and "\<not> enabled s"
  shows "\<exists>k. apiKey s = Some k \<and> k \<noteq> []"
proof (cases "apiKey s")
  case None
  with assms show ?thesis by (simp add: onClick_def)
next
  case (Some k)
  show ?thesis
  proof (cases "k = []")
    case True
    with Some assms(1) have "s' = s\<lparr>errors := (errors s)(''apiKey'' \<mapsto> t ''error:validation:empty-api-key'')\<rparr>"
      by (simp add: onClick_def)
    then have "enabled s' = enabled s" by simp
    with assms show ?thesis by simp
  next
    case False
    with Some show ?thesis by simp
  qed
qed

text \<open>
  C10, as stated, fails: on a selector whose query is already enabled, a click with the
  empty API key sets the field error and the query is still enabled afterwards.
\<close>

theorem load_models_empty_key_counterexample:
  "apiKey selector_enabled = Some []
   \<and> onClick (\<lambda>k. k) selector_enabled
       = Inr (selector_enabled
               \<lparr>errors := (errors selector_enabled)(''apiKey'' \<mapsto> ''error:validation:empty-api-key'')\<rparr>)
   \<and> enabled (selector_enabled
               \<lparr>errors := (errors selector_enabled)(''apiKey'' \<mapsto> ''error:validation:empty-api-key'')\<rparr>)"
  by (simp add: onClick_def selector_enabled_def)

text \<open>
  C10, amended. A click on the load-models button while the form's API key is the empty
  string sets the field error of \<^verbatim>\<open>apiKey\<close> and leaves \<^verbatim>\<open>enabled\<close> as it was: a fetch that
  was off stays off, and one that was already on stays on. A click turns \<^verbatim>\<open>enabled\<close> on
  only when the API key is a non-empty string, and then it does.
\<close>

theorem load_models_needs_an_api_key:
  "(apiKey s = Some [] \<longrightarrow>
      (\<exists>s'. onClick t s = Inr s'
          \<and> errors s' = (errors s)(''apiKey'' \<mapsto> t ''error:validation:empty-api-key'')
          \<and> enabled s' = enabled s))
   \<and> (\<forall>s'. onClick t s = Inr s' \<and> enabled s' \<and> \<not> enabled s \<longrightarrow>
        (\<exists>k. apiKey s = Some k \<and> k \<noteq> []))
   \<and> (\<forall>k. apiKey s = Some k \<and> k \<noteq> [] \<longrightarrow> onClick t s = Inr (s\<lparr>enabled := True\<rparr>))"
proof -
  have a: "apiKey s = Some [] \<longrightarrow>
      (\<exists>s'. onClick t s = Inr s'
          \<and> errors s' = (errors s)(''apiKey'' \<mapsto> t ''error:validation:empty-api-key'')
          \<and> enabled s' = enabled s)"
    by (simp add: onClick_empty)
  have b: "\<forall>s'. onClick t s = Inr s' \<and> enabled s' \<and> \<not> enabled s \<longrightarrow>
        (\<exists>k. apiKey s = Some k \<and> k \<noteq> [])"
    using onClick_enables [of t s] by blast
  have c: "\<forall>k. apiKey s = Some k \<and> k \<noteq> [] \<longrightarrow> onClick t s = Inr (s\<lparr>enabled := True\<rparr>)"
    using onClick_nonempty [of s _ t] by blast
  from a b c show ?thesis by (intro conjI)
qed

theorem load_models_needs_an_api_key_witness:
  "apiKey selector_fresh = Some []
   \<and> \<not> enabled selector_fresh
   \<and> (\<exists>s'. onClick (\<lambda>k. k) selector_fresh = Inr s'
          \<and> errors s' = (errors selector_fresh)(''apiKey'' \<mapsto> ''error:validation:empty-api-key'')
          \<and> enabled s' = enabled selector_fresh)
   \<and> onClick (\<lambda>k. k) (selector_fresh\<lparr>apiKey := Some ''A''\<rparr>)
       = Inr (selector_fresh\<lparr>apiKey := Some ''A'', enabled := True\<rparr>)"
proof -
  have k: "apiKey selector_fresh = Some []" and e: "\<not> enabled selector_fresh"
    by (simp_all add: selector_fresh_def)
  note empty = load_models_needs_an_api_key [of selector_fresh "\<lambda>k. k", THEN conjunct1]
  note filled = load_models_needs_an_api_key
                  [of "selector_fresh\<lparr>apiKey := Some ''A''\<rparr>" "\<lambda>k. k", THEN conjunct2, THEN conjunct2]
  from empty k have a: "\<exists>s'. onClick (\<lambda>k. k) selector_fresh = Inr s'
          \<and> errors s' = (errors selector_fresh)(''apiKey'' \<mapsto> ''error:validation:empty-api-key'')
          \<and> enabled s' = enabled selector_fresh"
    by (rule mp)
  have "apiKey (selector_fresh\<lparr>apiKey := Some ''A''\<rparr>) = Some ''A'' \<and> ''A'' \<noteq> []"
    by simp
  with filled have b: "onClick (\<lambda>k. k) (selector_fresh\<lparr>apiKey := Some ''A''\<rparr>)
        = Inr (selector_fresh\<lparr>apiKey := Some ''A'', enabled := True\<rparr>)"
    by simp
  from k e a b show ?thesis by (intro conjI)
qed

end
